theory Spec2Isabelle
  imports Main
begin

section \<open>The file upload panel (src/components/text-split/FileUploader.js)\<close>

text \<open>
  The React component \<open>FileUploader\<close> keeps nine pieces of local state and reacts to user
  events with handlers, three of which talk to the backend. The embedding below turns every
  handler into a function on the component state. A handler that awaits network calls also
  returns the list of externally visible events it produced, in the order in which they
  happened (requests sent, parent callbacks invoked, console output, page reload).

  Conventions of the embedding.
  \<^item> JavaScript strings are \<open>string\<close>; text outside ASCII is its generalised UTF-8 encoding
    (WTF-8), in which a code point from U+D800 to U+DFFF, that is an unpaired surrogate of
    the JavaScript string, is the three bytes \<open>0xED\<close>, \<open>0xA0\<close> to \<open>0xBF\<close>, \<open>0x80\<close> to \<open>0xBF\<close>
    (a surrogate pair is the four bytes of its code point, as in UTF-8).
    The Chinese message literals of the source are therefore lists of bytes, each with an
    English gloss.
  \<^item> \<open>null\<close> and \<open>undefined\<close> are one value: \<open>None\<close> where a string is expected, \<open>Nullish\<close>
    where a value is thrown.
  \<^item> A thrown value other than \<open>null\<close> and \<open>undefined\<close> is represented by its \<open>message\<close>
    property (\<open>None\<close> when it has none), which is all the handlers read from it. Reading the
    \<open>message\<close> of \<open>null\<close> or \<open>undefined\<close> throws a \<open>TypeError\<close>.
  \<^item> A handler runs from its invocation to its end on the state it was invoked on: the
    values a handler closes over (\<open>files\<close>, \<open>fileToDelete\<close>, \<open>uploadedFiles\<close>) are those of
    that state, and the state setters take effect in program order.
  \<^item> An exception that leaves a handler rejects the promise the handler returned; nothing
    in the component handles it, and it is recorded as the event \<open>Uncaught\<close>.
\<close>

subsection \<open>JavaScript primitives\<close>

text \<open>A value that is thrown, or with which a promise rejects.\<close>

datatype thrown = Nullish | Thrown "string option"

text \<open>Truthiness of a value that is a string, \<open>null\<close> or \<open>undefined\<close>: only a non-empty
  string is truthy.\<close>

definition truthy :: "string option \<Rightarrow> bool" where
  "truthy v = (case v of None \<Rightarrow> False | Some t \<Rightarrow> t \<noteq> [])"

text \<open>\<open>v || d\<close> for such a value and a string default.\<close>

definition or_else :: "string option \<Rightarrow> string \<Rightarrow> string" where
  "or_else v d = (case v of None \<Rightarrow> d | Some t \<Rightarrow> if t = [] then d else t)"

text \<open>\<open>String.prototype.endsWith\<close> with its default end position.\<close>

definition endsWith :: "string \<Rightarrow> string \<Rightarrow> bool" where
  "endsWith s t = (length t \<le> length s \<and> drop (length s - length t) s = t)"

text \<open>\<open>Array.prototype.join\<close> on an array of strings.\<close>

fun join :: "string \<Rightarrow> string list \<Rightarrow> string" where
  "join sep [] = []"
| "join sep [x] = x"
| "join sep (x # y # ys) = x @ sep @ join sep (y # ys)"

text \<open>A number in a template literal: the decimal digits of a natural number.\<close>

definition digit :: "nat \<Rightarrow> char" where
  "digit d = char_of (48 + d)"

function string_of_nat :: "nat \<Rightarrow> string" where
  "string_of_nat n = (if n < 10 then [digit n] else string_of_nat (n div 10) @ [digit (n mod 10)])"
  by pat_completeness auto
termination
  by (relation "measure id") auto

text \<open>\<open>encodeURIComponent\<close>: it throws a \<open>URIError\<close> (\<open>None\<close>) on a string with an unpaired
  surrogate; otherwise letters, digits and \<open>- _ . ! ~ * ' ( )\<close> stay and every other byte
  of the UTF-8 encoding becomes \<open>%\<close> and two upper-case hexadecimal digits.\<close>

fun unpaired_surrogate :: "string \<Rightarrow> bool" where
  "unpaired_surrogate (a # b # cs) =
     ((a = CHR 0xED \<and> 160 \<le> (of_char b :: nat)) \<or> unpaired_surrogate (b # cs))"
| "unpaired_surrogate cs = False"

definition unreserved :: "char \<Rightarrow> bool" where
  "unreserved c =
     (c \<in> set ''ABCDEFGHIJKLMNOPQRSTUVWXYZabcdefghijklmnopqrstuvwxyz0123456789-_.!~*()''
      \<or> c = CHR 0x27)"

definition hex_digit :: "nat \<Rightarrow> char" where
  "hex_digit d = ''0123456789ABCDEF'' ! (d mod 16)"

definition percent :: "char \<Rightarrow> string" where
  "percent c = [CHR ''%'', hex_digit (of_char c div 16), hex_digit (of_char c mod 16)]"

definition encodeURIComponent :: "string \<Rightarrow> string option" where
  "encodeURIComponent s =
     (if unpaired_surrogate s then None
      else Some (concat (map (\<lambda>c. if unreserved c then [c] else percent c) s)))"

subsection \<open>Message literals\<close>

text \<open>"Failed to fetch the file list" (line 47).\<close>
definition msg_fetch_list_failed :: string where
  "msg_fetch_list_failed =
     [CHR 0xE8, CHR 0x8E, CHR 0xB7, CHR 0xE5, CHR 0x8F, CHR 0x96, CHR 0xE6, CHR 0x96,
      CHR 0x87, CHR 0xE4, CHR 0xBB, CHR 0xB6, CHR 0xE5, CHR 0x88, CHR 0x97, CHR 0xE8,
      CHR 0xA1, CHR 0xA8, CHR 0xE5, CHR 0xA4, CHR 0xB1, CHR 0xE8, CHR 0xB4, CHR 0xA5]"

text \<open>"Error while fetching the file list:" (console, line 53).\<close>
definition log_fetch_list_error :: string where
  "log_fetch_list_error =
     [CHR 0xE8, CHR 0x8E, CHR 0xB7, CHR 0xE5, CHR 0x8F, CHR 0x96, CHR 0xE6, CHR 0x96,
      CHR 0x87, CHR 0xE4, CHR 0xBB, CHR 0xB6, CHR 0xE5, CHR 0x88, CHR 0x97, CHR 0xE8,
      CHR 0xA1, CHR 0xA8, CHR 0xE5, CHR 0x87, CHR 0xBA, CHR 0xE9, CHR 0x94, CHR 0x99,
      CHR 0x3A]"

text \<open>"A project is limited to one file; delete the existing file before uploading a new
  one" (line 64).\<close>
definition msg_single_file_limit :: string where
  "msg_single_file_limit =
     [CHR 0xE4, CHR 0xB8, CHR 0x80, CHR 0xE4, CHR 0xB8, CHR 0xAA, CHR 0xE9, CHR 0xA1,
      CHR 0xB9, CHR 0xE7, CHR 0x9B, CHR 0xAE, CHR 0xE9, CHR 0x99, CHR 0x90, CHR 0xE5,
      CHR 0x88, CHR 0xB6, CHR 0xE5, CHR 0xA4, CHR 0x84, CHR 0xE7, CHR 0x90, CHR 0x86,
      CHR 0xE4, CHR 0xB8, CHR 0x80, CHR 0xE4, CHR 0xB8, CHR 0xAA, CHR 0xE6, CHR 0x96,
      CHR 0x87, CHR 0xE4, CHR 0xBB, CHR 0xB6, CHR 0xEF, CHR 0xBC, CHR 0x8C, CHR 0xE5,
      CHR 0xA6, CHR 0x82, CHR 0xE9, CHR 0x9C, CHR 0x80, CHR 0xE4, CHR 0xB8, CHR 0x8A,
      CHR 0xE4, CHR 0xBC, CHR 0xA0, CHR 0xE6, CHR 0x96, CHR 0xB0, CHR 0xE6, CHR 0x96,
      CHR 0x87, CHR 0xE4, CHR 0xBB, CHR 0xB6, CHR 0xE8, CHR 0xAF, CHR 0xB7, CHR 0xE5,
      CHR 0x85, CHR 0x88, CHR 0xE5, CHR 0x88, CHR 0xA0, CHR 0xE9, CHR 0x99, CHR 0xA4,
      CHR 0xE7, CHR 0x8E, CHR 0xB0, CHR 0xE6, CHR 0x9C, CHR 0x89, CHR 0xE6, CHR 0x96,
      CHR 0x87, CHR 0xE4, CHR 0xBB, CHR 0xB6]"

text \<open>"Unsupported file format: " (line 74, before the rejected names).\<close>
definition msg_unsupported_prefix :: string where
  "msg_unsupported_prefix =
     [CHR 0xE4, CHR 0xB8, CHR 0x8D, CHR 0xE6, CHR 0x94, CHR 0xAF, CHR 0xE6, CHR 0x8C,
      CHR 0x81, CHR 0xE7, CHR 0x9A, CHR 0x84, CHR 0xE6, CHR 0x96, CHR 0x87, CHR 0xE4,
      CHR 0xBB, CHR 0xB6, CHR 0xE6, CHR 0xA0, CHR 0xBC, CHR 0xE5, CHR 0xBC, CHR 0x8F,
      CHR 0x3A, CHR 0x20]"

text \<open>". Only Markdown files are supported for now." (line 74, after the rejected names).\<close>
definition msg_unsupported_suffix :: string where
  "msg_unsupported_suffix =
     [CHR 0xE3, CHR 0x80, CHR 0x82, CHR 0xE7, CHR 0x9B, CHR 0xAE, CHR 0xE5, CHR 0x89,
      CHR 0x8D, CHR 0xE4, CHR 0xBB, CHR 0x85, CHR 0xE6, CHR 0x94, CHR 0xAF, CHR 0xE6,
      CHR 0x8C, CHR 0x81, CHR 0x4D, CHR 0x61, CHR 0x72, CHR 0x6B, CHR 0x64, CHR 0x6F,
      CHR 0x77, CHR 0x6E, CHR 0xE6, CHR 0x96, CHR 0x87, CHR 0xE4, CHR 0xBB, CHR 0xB6,
      CHR 0xE3, CHR 0x80, CHR 0x82]"

text \<open>"No model selected; select a model in the top navigation bar first" (line 106).\<close>
definition msg_no_model :: string where
  "msg_no_model =
     [CHR 0xE6, CHR 0x9C, CHR 0xAA, CHR 0xE9, CHR 0x80, CHR 0x89, CHR 0xE6, CHR 0x8B,
      CHR 0xA9, CHR 0xE6, CHR 0xA8, CHR 0xA1, CHR 0xE5, CHR 0x9E, CHR 0x8B, CHR 0xEF,
      CHR 0xBC, CHR 0x8C, CHR 0xE8, CHR 0xAF, CHR 0xB7, CHR 0xE5, CHR 0x85, CHR 0x88,
      CHR 0xE5, CHR 0x9C, CHR 0xA8, CHR 0xE9, CHR 0xA1, CHR 0xB6, CHR 0xE9, CHR 0x83,
      CHR 0xA8, CHR 0xE5, CHR 0xAF, CHR 0xBC, CHR 0xE8, CHR 0x88, CHR 0xAA, CHR 0xE6,
      CHR 0xA0, CHR 0x8F, CHR 0xE9, CHR 0x80, CHR 0x89, CHR 0xE6, CHR 0x8B, CHR 0xA9,
      CHR 0xE4, CHR 0xB8, CHR 0x80, CHR 0xE4, CHR 0xB8, CHR 0xAA, CHR 0xE6, CHR 0xA8,
      CHR 0xA1, CHR 0xE5, CHR 0x9E, CHR 0x8B]"

text \<open>"Error parsing the model information!" (line 116).\<close>
definition msg_parse_model_info :: string where
  "msg_parse_model_info =
     [CHR 0xE8, CHR 0xA7, CHR 0xA3, CHR 0xE6, CHR 0x9E, CHR 0x90, CHR 0xE6, CHR 0xA8,
      CHR 0xA1, CHR 0xE5, CHR 0x9E, CHR 0x8B, CHR 0xE4, CHR 0xBF, CHR 0xA1, CHR 0xE6,
      CHR 0x81, CHR 0xAF, CHR 0xE5, CHR 0x87, CHR 0xBA, CHR 0xE9, CHR 0x94, CHR 0x99,
      CHR 0x21]"

text \<open>"Failed to upload the file" (lines 133 and 151).\<close>
definition msg_upload_failed :: string where
  "msg_upload_failed =
     [CHR 0xE4, CHR 0xB8, CHR 0x8A, CHR 0xE4, CHR 0xBC, CHR 0xA0, CHR 0xE6, CHR 0x96,
      CHR 0x87, CHR 0xE4, CHR 0xBB, CHR 0xB6, CHR 0xE5, CHR 0xA4, CHR 0xB1, CHR 0xE8,
      CHR 0xB4, CHR 0xA5]"

text \<open>"Successfully uploaded " and " files" (line 140, around the count).\<close>
definition msg_uploaded_prefix :: string where
  "msg_uploaded_prefix =
     [CHR 0xE6, CHR 0x88, CHR 0x90, CHR 0xE5, CHR 0x8A, CHR 0x9F, CHR 0xE4, CHR 0xB8,
      CHR 0x8A, CHR 0xE4, CHR 0xBC, CHR 0xA0, CHR 0x20]"

definition msg_uploaded_suffix :: string where
  "msg_uploaded_suffix =
     [CHR 0x20, CHR 0xE4, CHR 0xB8, CHR 0xAA, CHR 0xE6, CHR 0x96, CHR 0x87, CHR 0xE4,
      CHR 0xBB, CHR 0xB6]"

text \<open>"Failed to delete the file" (line 183).\<close>
definition msg_delete_failed :: string where
  "msg_delete_failed =
     [CHR 0xE5, CHR 0x88, CHR 0xA0, CHR 0xE9, CHR 0x99, CHR 0xA4, CHR 0xE6, CHR 0x96,
      CHR 0x87, CHR 0xE4, CHR 0xBB, CHR 0xB6, CHR 0xE5, CHR 0xA4, CHR 0xB1, CHR 0xE8,
      CHR 0xB4, CHR 0xA5]"

text \<open>"Successfully deleted file " (line 194, before the name).\<close>
definition msg_deleted_prefix :: string where
  "msg_deleted_prefix =
     [CHR 0xE6, CHR 0x88, CHR 0x90, CHR 0xE5, CHR 0x8A, CHR 0x9F, CHR 0xE5, CHR 0x88,
      CHR 0xA0, CHR 0xE9, CHR 0x99, CHR 0xA4, CHR 0xE6, CHR 0x96, CHR 0x87, CHR 0xE4,
      CHR 0xBB, CHR 0xB6, CHR 0x20]"

text \<open>"Error while deleting the file:" (console, line 198).\<close>
definition log_delete_error :: string where
  "log_delete_error =
     [CHR 0xE5, CHR 0x88, CHR 0xA0, CHR 0xE9, CHR 0x99, CHR 0xA4, CHR 0xE6, CHR 0x96,
      CHR 0x87, CHR 0xE4, CHR 0xBB, CHR 0xB6, CHR 0xE5, CHR 0x87, CHR 0xBA, CHR 0xE9,
      CHR 0x94, CHR 0x99, CHR 0x3A]"

subsection \<open>Data model\<close>

text \<open>A locally selected \<open>File\<close>: its name and its bytes.\<close>

record pending_file =
  name :: string
  content :: string

text \<open>The component state, one field per \<open>useState\<close> (lines 24 to 32). The entries of
  \<open>uploadedFiles\<close> are whatever the server lists; the component never looks inside them.\<close>

record 'u panel =
  files :: "pending_file list"
  uploadedFiles :: "'u list"
  uploading :: bool
  loading :: bool
  error :: "string option"
  success :: bool
  successMessage :: string
  deleteConfirmOpen :: bool
  fileToDelete :: "string option"

definition initial :: "'u panel" where
  "initial = \<lparr>files = [], uploadedFiles = [], uploading = False, loading = False,
     error = None, success = False, successMessage = [], deleteConfirmOpen = False,
     fileToDelete = None\<rparr>"

text \<open>What a parent callback does when it is called: it returns, or it throws.\<close>

datatype outcome = Returns | Throws thrown

text \<open>The props. \<open>onProcessStart\<close> is accepted by the component and never used, so it is left
  out. A callback that is not supplied is \<open>None\<close>.\<close>

record 'v props =
  projectId :: string
  onUploadSuccess :: "(string option list \<Rightarrow> 'v option \<Rightarrow> outcome) option"
  onFileDeleted :: "(string \<Rightarrow> outcome) option"

text \<open>HTTP requests: the URL and, for an upload, the file in the form field \<open>file\<close>.\<close>

datatype request = GET string | POST string pending_file | DELETE string

text \<open>What \<open>response.json()\<close> gives: it rejects, or reading a property of its result throws
  (\<open>Unreadable\<close>, with the value thrown), or it is an object, of which the handlers read the
  properties \<open>error\<close>, \<open>fileName\<close> and \<open>files\<close>.\<close>

datatype 'u body =
    Unreadable thrown
  | Body "string option" "string option" "'u list option"

text \<open>What \<open>fetch\<close> gives: it rejects, or it resolves to a response with its \<open>ok\<close> flag
  (a 2xx status) and its body.\<close>

datatype 'u response = Rejected thrown | Response bool "'u body"

text \<open>Externally visible events.\<close>

datatype 'v event =
    Fetch request
  | ConsoleError string thrown
  | UploadSuccess "string option list" "'v option"
  | FileDeleted string
  | Reload
  | Uncaught thrown

text \<open>The result of \<open>JSON.parse\<close>: a syntax error, or a value (\<open>None\<close> for \<open>null\<close>).\<close>

datatype 'v parsed = SyntaxError | Parsed "'v option"

text \<open>The world around the component: local storage (\<open>getItem\<close>), the browser's
  \<open>JSON.parse\<close>, the network, which answers a request depending on the events so far, and
  the messages the JavaScript engine gives to the \<open>TypeError\<close> of reading a property of
  \<open>null\<close> or \<open>undefined\<close> and to the \<open>URIError\<close> of \<open>encodeURIComponent\<close>.\<close>

record ('u, 'v) env =
  localStorage :: "string \<Rightarrow> string option"
  JSON_parse :: "string \<Rightarrow> 'v parsed"
  fetch :: "'v event list \<Rightarrow> request \<Rightarrow> 'u response"
  typeError_message :: string
  uriError_message :: string

subsection \<open>Handlers\<close>

text \<open>The endpoint \<open>/api/projects/${projectId}/files\<close>.\<close>

definition files_url :: "'v props \<Rightarrow> string" where
  "files_url p = ''/api/projects/'' @ projectId p @ ''/files''"

text \<open>What \<open>const errorData = await response.json(); throw new Error(errorData.error || d)\<close>
  throws.\<close>

definition thrown_error :: "'u body \<Rightarrow> string \<Rightarrow> thrown" where
  "thrown_error b d =
     (case b of Unreadable v \<Rightarrow> v | Body er fn fl \<Rightarrow> Thrown (Some (or_else er d)))"

text \<open>The expression \<open>error.message\<close> in a \<open>catch\<close> block: the message of the value caught, or
  the \<open>TypeError\<close> that reading it throws when the value is \<open>null\<close> or \<open>undefined\<close>.\<close>

definition read_message :: "('u, 'v) env \<Rightarrow> thrown \<Rightarrow> thrown + string option" where
  "read_message e v =
     (case v of Nullish \<Rightarrow> Inl (Thrown (Some (typeError_message e))) | Thrown m \<Rightarrow> Inr m)"

text \<open>\<open>fetchUploadedFiles\<close> (lines 40 to 58): what leaves it, if anything (the \<open>TypeError\<close> of
  line 54), with the state and the events at its end.\<close>

definition fetchUploadedFiles ::
  "'v props \<Rightarrow> ('u, 'v) env \<Rightarrow> 'u panel \<times> 'v event list
     \<Rightarrow> (thrown + unit) \<times> 'u panel \<times> 'v event list" where
  "fetchUploadedFiles p e = (\<lambda>(s, tr).
     let s1 = s\<lparr>loading := True\<rparr>;
         req = GET (files_url p);
         tr1 = tr @ [Fetch req];
         r = (case fetch e tr req of
                Rejected v \<Rightarrow> Inl v
              | Response ok b \<Rightarrow>
                  if \<not> ok then Inl (thrown_error b msg_fetch_list_failed)
                  else (case b of
                          Unreadable v \<Rightarrow> Inl v
                        | Body er fn fl \<Rightarrow> Inr (case fl of None \<Rightarrow> [] | Some l \<Rightarrow> l)))
     in case r of
          Inr l \<Rightarrow> (Inr (), s1\<lparr>uploadedFiles := l, loading := False\<rparr>, tr1)
        | Inl v \<Rightarrow>
            (let tr2 = tr1 @ [ConsoleError log_fetch_list_error v]
             in case read_message e v of
                  Inr m \<Rightarrow> (Inr (), s1\<lparr>error := m, loading := False\<rparr>, tr2)
                | Inl t \<Rightarrow> (Inl t, s1\<lparr>loading := False\<rparr>, tr2)))"

text \<open>The effect that runs once when the component is mounted (lines 35 to 37); the promise
  of \<open>fetchUploadedFiles\<close> is dropped.\<close>

definition onMount ::
  "'v props \<Rightarrow> ('u, 'v) env \<Rightarrow> 'u panel \<Rightarrow> 'u panel \<times> 'v event list" where
  "onMount p e s =
     (case fetchUploadedFiles p e (s, []) of
        (Inr u, s1, tr) \<Rightarrow> (s1, tr)
      | (Inl t, s1, tr) \<Rightarrow> (s1, tr @ [Uncaught t]))"

text \<open>\<open>handleFileSelect\<close> (lines 61 to 80); the argument is \<open>Array.from(event.target.files)\<close>.\<close>

definition handleFileSelect :: "pending_file list \<Rightarrow> 'u panel \<Rightarrow> 'u panel" where
  "handleFileSelect selectedFiles s =
     (if length (uploadedFiles s) > 0 then s\<lparr>error := Some msg_single_file_limit\<rparr>
      else
        let validFiles = filter (\<lambda>f. endsWith (name f) ''.md'') selectedFiles;
            invalidFiles = filter (\<lambda>f. \<not> endsWith (name f) ''.md'') selectedFiles;
            s1 = (if length invalidFiles > 0
                  then s\<lparr>error := Some (msg_unsupported_prefix
                                          @ join '', '' (map name invalidFiles)
                                          @ msg_unsupported_suffix)\<rparr>
                  else s)
        in if length validFiles > 0 then s1\<lparr>files := files s1 @ validFiles\<rparr> else s1)"

text \<open>\<open>removeFile\<close> (lines 83 to 85): keeps the entries whose position is not \<open>index\<close>.\<close>

definition removeFile :: "int \<Rightarrow> 'u panel \<Rightarrow> 'u panel" where
  "removeFile index s =
     s\<lparr>files := map snd (filter (\<lambda>(i, f). int i \<noteq> index) (enumerate 0 (files s)))\<rparr>"

text \<open>The loop of \<open>handleStartUpload\<close> (lines 122 to 138): one POST per file, in order; the
  accumulator is \<open>uploadedFileNames\<close>. The first failure leaves the loop.\<close>

fun uploadEach ::
  "string \<Rightarrow> ('u, 'v) env \<Rightarrow> pending_file list \<Rightarrow> string option list \<Rightarrow> 'v event list
     \<Rightarrow> (thrown + string option list) \<times> 'v event list" where
  "uploadEach url e [] uploadedFileNames tr = (Inr uploadedFileNames, tr)"
| "uploadEach url e (f # fs) uploadedFileNames tr =
     (let req = POST url f;
          tr1 = tr @ [Fetch req]
      in case fetch e tr req of
           Rejected v \<Rightarrow> (Inl v, tr1)
         | Response ok b \<Rightarrow>
             if \<not> ok then (Inl (thrown_error b msg_upload_failed), tr1)
             else (case b of
                     Unreadable v \<Rightarrow> (Inl v, tr1)
                   | Body er fn fl \<Rightarrow> uploadEach url e fs (uploadedFileNames @ [fn]) tr1))"

text \<open>Lines 110 to 118: the stored model information, parsed when the stored string is
  truthy.\<close>

definition parseModelInfo :: "('u, 'v) env \<Rightarrow> 'v parsed" where
  "parseModelInfo e =
     (case localStorage e ''selectedModelInfo'' of
        None \<Rightarrow> Parsed None
      | Some modelInfoStr \<Rightarrow> if modelInfoStr = [] then Parsed None else JSON_parse e modelInfoStr)"

text \<open>The \<open>try\<close> block of \<open>handleStartUpload\<close> (lines 100 to 149): what it throws, if anything,
  with the state and the events at that point.\<close>

definition startUpload_try ::
  "'v props \<Rightarrow> ('u, 'v) env \<Rightarrow> 'u panel \<Rightarrow> (thrown + unit) \<times> 'u panel \<times> 'v event list" where
  "startUpload_try p e s =
     (if \<not> truthy (localStorage e ''selectedModelId'')
      then (Inl (Thrown (Some msg_no_model)), s, [])
      else case parseModelInfo e of
        SyntaxError \<Rightarrow> (Inl (Thrown (Some msg_parse_model_info)), s, [])
      | Parsed selectedModelInfo \<Rightarrow>
          (case uploadEach (files_url p) e (files s) [] [] of
             (Inl v, tr) \<Rightarrow> (Inl v, s, tr)
           | (Inr uploadedFileNames, tr) \<Rightarrow>
               let s1 = s\<lparr>successMessage := msg_uploaded_prefix
                                              @ string_of_nat (length (files s))
                                              @ msg_uploaded_suffix,
                           success := True, files := []\<rparr>
               in (case fetchUploadedFiles p e (s1, tr) of
                     (Inl t, s2, tr2) \<Rightarrow> (Inl t, s2, tr2)
                   | (Inr u, s2, tr2) \<Rightarrow>
                       (case onUploadSuccess p of
                          None \<Rightarrow> (Inr (), s2, tr2)
                        | Some callback \<Rightarrow>
                            (case callback uploadedFileNames selectedModelInfo of
                               Returns \<Rightarrow>
                                 (Inr (), s2,
                                  tr2 @ [UploadSuccess uploadedFileNames selectedModelInfo])
                             | Throws v \<Rightarrow>
                                 (Inl v, s2,
                                  tr2 @ [UploadSuccess uploadedFileNames selectedModelInfo]))))))"

text \<open>\<open>handleStartUpload\<close> (lines 96 to 155): the \<open>try\<close> block, its \<open>catch\<close>, in which
  \<open>err.message\<close> may throw in its turn, and its \<open>finally\<close>.\<close>

definition handleStartUpload ::
  "'v props \<Rightarrow> ('u, 'v) env \<Rightarrow> 'u panel \<Rightarrow> 'u panel \<times> 'v event list" where
  "handleStartUpload p e s =
     (case startUpload_try p e (s\<lparr>uploading := True, error := None\<rparr>) of
        (Inr u, s1, tr) \<Rightarrow> (s1\<lparr>uploading := False\<rparr>, tr)
      | (Inl v, s1, tr) \<Rightarrow>
          (case read_message e v of
             Inr m \<Rightarrow> (s1\<lparr>error := Some (or_else m msg_upload_failed), uploading := False\<rparr>, tr)
           | Inl t \<Rightarrow> (s1\<lparr>uploading := False\<rparr>, tr @ [Uncaught t])))"

text \<open>\<open>uploadFiles\<close> (lines 88 to 93).\<close>

definition uploadFiles ::
  "'v props \<Rightarrow> ('u, 'v) env \<Rightarrow> 'u panel \<Rightarrow> 'u panel \<times> 'v event list" where
  "uploadFiles p e s = (if length (files s) = 0 then (s, []) else handleStartUpload p e s)"

text \<open>\<open>openDeleteConfirm\<close> and \<open>closeDeleteConfirm\<close> (lines 158 to 167).\<close>

definition openDeleteConfirm :: "string \<Rightarrow> 'u panel \<Rightarrow> 'u panel" where
  "openDeleteConfirm fileName s = s\<lparr>fileToDelete := Some fileName, deleteConfirmOpen := True\<rparr>"

definition closeDeleteConfirm :: "'u panel \<Rightarrow> 'u panel" where
  "closeDeleteConfirm s = s\<lparr>deleteConfirmOpen := False, fileToDelete := None\<rparr>"

text \<open>The \<open>try\<close> block of \<open>handleDeleteFile\<close> (lines 173 to 196), entered with a truthy
  \<open>fileToDelete\<close>, here \<open>target\<close>. The URL of line 177 is evaluated before \<open>fetch\<close> is called,
  and \<open>encodeURIComponent\<close> may throw there. A 2xx answer to the DELETE is not read any
  further.\<close>

definition deleteFile_try ::
  "'v props \<Rightarrow> ('u, 'v) env \<Rightarrow> string \<Rightarrow> 'u panel \<Rightarrow> (thrown + unit) \<times> 'u panel \<times> 'v event list" where
  "deleteFile_try p e target s =
     (let s1 = closeDeleteConfirm (s\<lparr>loading := True\<rparr>)
      in case encodeURIComponent target of
           None \<Rightarrow> (Inl (Thrown (Some (uriError_message e))), s1, [])
         | Some encoded \<Rightarrow>
             (let req = DELETE (files_url p @ ''?fileName='' @ encoded);
                  tr1 = [Fetch req]
              in case fetch e [] req of
                   Rejected v \<Rightarrow> (Inl v, s1, tr1)
                 | Response ok b \<Rightarrow>
                     if \<not> ok then (Inl (thrown_error b msg_delete_failed), s1, tr1)
                     else
                       (case fetchUploadedFiles p e (s1, tr1) of
                          (Inl t, s2, tr2) \<Rightarrow> (Inl t, s2, tr2)
                        | (Inr u, s2, tr2) \<Rightarrow>
                            (let notified =
                                   (case onFileDeleted p of
                                      None \<Rightarrow> (Returns, tr2)
                                    | Some callback \<Rightarrow>
                                        (callback target, tr2 @ [FileDeleted target]))
                             in (case notified of
                                   (Throws v, tr3) \<Rightarrow> (Inl v, s2, tr3)
                                 | (Returns, tr3) \<Rightarrow>
                                     (Inr (),
                                      s2\<lparr>successMessage := msg_deleted_prefix @ target,
                                         success := True\<rparr>,
                                      tr3 @ [Reload]))))))"

text \<open>\<open>handleDeleteFile\<close> (lines 170 to 204): the guard, the \<open>try\<close> block, its \<open>catch\<close>, in
  which \<open>error.message\<close> may throw in its turn, and its \<open>finally\<close>.\<close>

definition handleDeleteFile ::
  "'v props \<Rightarrow> ('u, 'v) env \<Rightarrow> 'u panel \<Rightarrow> 'u panel \<times> 'v event list" where
  "handleDeleteFile p e s =
     (if \<not> truthy (fileToDelete s) then (s, [])
      else case fileToDelete s of
        None \<Rightarrow> (s, [])
      | Some target \<Rightarrow>
          (case deleteFile_try p e target s of
             (Inr u, s1, tr) \<Rightarrow> (s1\<lparr>loading := False, fileToDelete := None\<rparr>, tr)
           | (Inl v, s1, tr) \<Rightarrow>
               (let tr1 = tr @ [ConsoleError log_delete_error v]
                in case read_message e v of
                     Inr m \<Rightarrow> (s1\<lparr>error := m, loading := False, fileToDelete := None\<rparr>, tr1)
                   | Inl t \<Rightarrow>
                       (s1\<lparr>loading := False, fileToDelete := None\<rparr>, tr1 @ [Uncaught t]))))"

text \<open>\<open>handleCloseError\<close> and \<open>handleCloseSuccess\<close> (lines 207 to 214).\<close>

definition handleCloseError :: "'u panel \<Rightarrow> 'u panel" where
  "handleCloseError s = s\<lparr>error := None\<rparr>"

definition handleCloseSuccess :: "'u panel \<Rightarrow> 'u panel" where
  "handleCloseSuccess s = s\<lparr>success := False\<rparr>"

subsection \<open>Observations used to state the properties\<close>




text \<open>An answer from which the code gets \<open>null\<close> or \<open>undefined\<close> as a thrown value: \<open>fetch\<close>
  rejects with it, or the reading of the body does.\<close>

definition nullish_failure :: "'u response \<Rightarrow> bool" where
  "nullish_failure r =
     (case r of
        Rejected v \<Rightarrow> v = Nullish
      | Response ok (Unreadable v) \<Rightarrow> v = Nullish
      | Response ok (Body er fn fl) \<Rightarrow> False)"

text \<open>The events of the \<open>catch\<close> block of \<open>handleDeleteFile\<close> (lines 197 to 199) for the
  value it catches: the value is logged and, when reading its message throws, that
  \<open>TypeError\<close> leaves the handler.\<close>

definition delete_caught :: "('u, 'v) env \<Rightarrow> thrown \<Rightarrow> 'v event list" where
  "delete_caught e v =
     ConsoleError log_delete_error v
     # (case read_message e v of Inl t \<Rightarrow> [Uncaught t] | Inr m \<Rightarrow> [])"

text \<open>The parent callbacks among a list of events.\<close>

definition callbacks :: "'v event list \<Rightarrow> 'v event list" where
  "callbacks tr =
     filter (\<lambda>ev. case ev of UploadSuccess ns i \<Rightarrow> True | FileDeleted n \<Rightarrow> True | _ \<Rightarrow> False) tr"

subsection \<open>Sample inputs\<close>

definition doc_md :: pending_file where
  "doc_md = \<lparr>name = ''doc.md'', content = ''# Title''\<rparr>"

definition notes_md :: pending_file where
  "notes_md = \<lparr>name = ''notes.md'', content = ''- item''\<rparr>"

definition photo_png :: pending_file where
  "photo_png = \<lparr>name = ''photo.png'', content = ''PNG''\<rparr>"

definition data_csv :: pending_file where
  "data_csv = \<lparr>name = ''data.csv'', content = ''a,b''\<rparr>"

text \<open>A parent that supplies both callbacks, each returning normally. Parsed model information
  is a list of properties here.\<close>

definition sample_props :: "(string \<times> string) list props" where
  "sample_props = \<lparr>projectId = ''p1'',
     onUploadSuccess = Some (\<lambda>fileNames modelInfo. Returns),
     onFileDeleted = Some (\<lambda>fileName. Returns)\<rparr>"

text \<open>\<open>JSON.parse\<close> on the texts of the samples: the empty object and \<open>null\<close> parse; the empty
  text and \<open>{oops\<close> are not JSON (nor, for this sample, is anything else).\<close>

definition sample_JSON_parse :: "string \<Rightarrow> (string \<times> string) list parsed" where
  "sample_JSON_parse t =
     (if t = ''{}'' then Parsed (Some []) else if t = ''null'' then Parsed None else SyntaxError)"

text \<open>A server that accepts every upload under the name of the file, lists the names uploaded
  so far, and accepts every deletion.\<close>

definition sample_server ::
  "(string \<times> string) list event list \<Rightarrow> request \<Rightarrow> string response" where
  "sample_server tr r =
     (case r of
        GET url \<Rightarrow>
          Response True (Body None None
            (Some (concat (map (\<lambda>ev. case ev of Fetch (POST u f) \<Rightarrow> [name f] | _ \<Rightarrow> []) tr))))
      | POST url f \<Rightarrow> Response True (Body None (Some (name f)) None)
      | DELETE url \<Rightarrow> Response True (Body None None None))"


text \<open>A server that refuses every deletion.\<close>

definition locked_server ::
  "(string \<times> string) list event list \<Rightarrow> request \<Rightarrow> string response" where
  "locked_server tr r =
     (case r of
        DELETE url \<Rightarrow> Response False (Body (Some ''file is locked'') None None)
      | _ \<Rightarrow> sample_server tr r)"


definition nullish_list_server ::
  "(string \<times> string) list event list \<Rightarrow> request \<Rightarrow> string response" where
  "nullish_list_server tr r =
     (case r of GET url \<Rightarrow> Rejected Nullish | _ \<Rightarrow> sample_server tr r)"

text \<open>A file name that starts with the unpaired surrogate U+D800.\<close>

definition surrogate_md :: string where
  "surrogate_md = [CHR 0xED, CHR 0xA0, CHR 0x80] @ ''.md''"

text \<open>A browser with the given local storage in front of the given server.\<close>

definition sample_env ::
  "(string \<times> string) list
     \<Rightarrow> ((string \<times> string) list event list \<Rightarrow> request \<Rightarrow> string response)
     \<Rightarrow> (string, (string \<times> string) list) env" where
  "sample_env stored server =
     \<lparr>localStorage = map_of stored, JSON_parse = sample_JSON_parse, fetch = server,
      typeError_message = ''null has no properties'', uriError_message = ''URI malformed''\<rparr>"

section \<open>Properties\<close>

subsection \<open>Selecting and removing files\<close>

text \<open>
  Claim C3. File selection: when \<open>uploadedFiles\<close> is not empty, no candidate is accepted and
  the error becomes the single-file-limit message; nothing else changes. Otherwise the
  candidates whose names end in \<open>.md\<close> are appended to \<open>files\<close>, in their order, and no other
  candidate is; and when some candidate's name does not end in \<open>.md\<close>, the error becomes one
  message that lists all rejected names, in their order, joined by a comma and a space (when
  none is rejected the error is left as it was). No other field changes.
\<close>

theorem handleFileSelect_md_only:
  "(uploadedFiles s \<noteq> [] \<longrightarrow>
      handleFileSelect c s = s\<lparr>error := Some msg_single_file_limit\<rparr>)
   \<and> (uploadedFiles s = [] \<longrightarrow>
      handleFileSelect c s =
        s\<lparr>files := files s @ filter (\<lambda>f. endsWith (name f) ''.md'') c,
          error :=
            (if list_all (\<lambda>f. endsWith (name f) ''.md'') c then error s
             else Some (msg_unsupported_prefix
                        @ join '', '' (map name (filter (\<lambda>f. \<not> endsWith (name f) ''.md'') c))
                        @ msg_unsupported_suffix))\<rparr>)"
  by (auto simp: handleFileSelect_def Let_def filter_empty_conv list_all_iff)

theorem handleFileSelect_md_only_witness:
  "handleFileSelect [doc_md] (initial\<lparr>uploadedFiles := [''old.md'']\<rparr>)
     = initial\<lparr>uploadedFiles := [''old.md''], error := Some msg_single_file_limit\<rparr>
   \<and> handleFileSelect [doc_md, photo_png, notes_md, data_csv] (initial :: string panel)
     = initial\<lparr>files := [doc_md, notes_md],
         error := Some (msg_unsupported_prefix @ ''photo.png, data.csv'' @ msg_unsupported_suffix)\<rparr>"
proof -
  have a: "uploadedFiles (initial\<lparr>uploadedFiles := [''old.md'']\<rparr>) \<noteq> []"
    by simp
  have b: "uploadedFiles (initial :: string panel) = []"
    by (simp add: initial_def)
  have c: "list_all (\<lambda>f. endsWith (name f) ''.md'') [doc_md, photo_png, notes_md, data_csv]
             = False"
    by (simp add: endsWith_def doc_md_def photo_png_def)
  have d: "filter (\<lambda>f. endsWith (name f) ''.md'') [doc_md, photo_png, notes_md, data_csv]
             = [doc_md, notes_md]"
    by (simp add: endsWith_def doc_md_def photo_png_def notes_md_def data_csv_def)
  have e: "join '', '' (map name (filter (\<lambda>f. \<not> endsWith (name f) ''.md'')
             [doc_md, photo_png, notes_md, data_csv])) = ''photo.png, data.csv''"
    by (simp add: endsWith_def doc_md_def photo_png_def notes_md_def data_csv_def)
  have f: "files (initial :: string panel) = []"
    by (simp add: initial_def)
  from handleFileSelect_md_only [of "initial\<lparr>uploadedFiles := [''old.md'']\<rparr>" "[doc_md]"] a
  have 1: "handleFileSelect [doc_md] (initial\<lparr>uploadedFiles := [''old.md'']\<rparr>)
     = initial\<lparr>uploadedFiles := [''old.md''], error := Some msg_single_file_limit\<rparr>"
    by blast
  note run = handleFileSelect_md_only
    [of "initial :: string panel" "[doc_md, photo_png, notes_md, data_csv]",
      THEN conjunct2, THEN mp, OF b, unfolded c d e f if_False]
  then have 2: "handleFileSelect [doc_md, photo_png, notes_md, data_csv] (initial :: string panel)
     = initial\<lparr>files := [doc_md, notes_md],
         error := Some (msg_unsupported_prefix @ ''photo.png, data.csv'' @ msg_unsupported_suffix)\<rparr>"
    by simp
  from 1 2 show ?thesis
    by (intro conjI)
qed

text \<open>\<open>Array.prototype.filter\<close> on the positions: dropping position \<open>k\<close> of a list whose
  positions are counted from \<open>n\<close>.\<close>

lemma remove_position:
  "map snd (filter (\<lambda>(i, f). int i \<noteq> int k) (enumerate n xs))
     = take (k - n) xs @ (if n \<le> k then drop (Suc (k - n)) xs else drop (k - n) xs)"
proof (induction xs arbitrary: n)
  case Nil
  then show ?case by simp
next
  case (Cons x xs)
  show ?case
  proof (cases "n \<le> k")
    case False
    then show ?thesis using Cons [of "Suc n"] by simp
  next
    case True
    show ?thesis
    proof (cases "n = k")
      case True
      then show ?thesis using Cons [of "Suc n"] by simp
    next
      case False
      with \<open>n \<le> k\<close> have "n < k" by simp
      then have "k - n = Suc (k - Suc n)" by simp
      then show ?thesis using Cons [of "Suc n"] \<open>n < k\<close> by simp
    qed
  qed
qed

text \<open>
  Claim C7. For an index that is a position of \<open>files\<close>, \<open>removeFile\<close> leaves a list that is
  one entry shorter: the entries before the position followed by the entries after it, so
  the remaining entries keep their relative order.
\<close>

theorem removeFile_valid_index:
  assumes "0 \<le> i" and "i < int (length (files s))"
  shows "Suc (length (files (removeFile i s))) = length (files s)
       \<and> files (removeFile i s) = take (nat i) (files s) @ drop (Suc (nat i)) (files s)"
proof -
  define k where "k = nat i"
  with assms have k: "i = int k" "k < length (files s)"
    by simp_all
  have "files (removeFile i s) = take k (files s) @ drop (Suc k) (files s)"
    using remove_position [of k 0 "files s"] k by (simp add: removeFile_def)
  then show ?thesis using k by simp
qed

theorem removeFile_valid_index_witness:
  "(0::int) \<le> 1
   \<and> 1 < int (length (files (initial\<lparr>files := [doc_md, photo_png, notes_md]\<rparr> :: string panel)))
   \<and> files (removeFile 1 (initial\<lparr>files := [doc_md, photo_png, notes_md]\<rparr> :: string panel))
       = [doc_md, notes_md]"
proof -
  have a: "(0::int) \<le> 1"
    by simp
  have b: "1 < int (length (files (initial\<lparr>files := [doc_md, photo_png, notes_md]\<rparr> :: string panel)))"
    by simp
  from removeFile_valid_index [OF a b] a b show ?thesis
    by simp
qed

subsection \<open>Dismissing notifications\<close>

text \<open>
  Claim C8. Dismissing the error notification twice in a row gives the state that dismissing
  it once gives, and so does dismissing the success notification.
\<close>

theorem dismiss_idempotent:
  "handleCloseError (handleCloseError s) = handleCloseError s
   \<and> handleCloseSuccess (handleCloseSuccess s) = handleCloseSuccess s"
  by (simp add: handleCloseError_def handleCloseSuccess_def)

subsection \<open>Uploading\<close>

lemma msg_no_model_nonempty: "msg_no_model \<noteq> []"
  by (simp add: msg_no_model_def)

lemma msg_parse_model_info_nonempty: "msg_parse_model_info \<noteq> []"
  by (simp add: msg_parse_model_info_def)



text \<open>
  Claim C4. When local storage holds no \<open>selectedModelId\<close>, \<open>handleStartUpload\<close> ends with the
  no-model-selected error, without any event (so without any network request), with
  \<open>uploading\<close> false and with every other field, \<open>files\<close> included, as it was.
\<close>

theorem no_model_selected:
  assumes "localStorage e ''selectedModelId'' = None"
  shows "handleStartUpload p e s = (s\<lparr>uploading := False, error := Some msg_no_model\<rparr>, [])"
  using assms
  by (simp add: handleStartUpload_def read_message_def startUpload_try_def truthy_def
      or_else_def
      msg_no_model_nonempty)

theorem no_model_selected_witness:
  "localStorage (sample_env [] sample_server) ''selectedModelId'' = None
   \<and> handleStartUpload sample_props (sample_env [] sample_server) (initial\<lparr>files := [doc_md]\<rparr>)
       = (initial\<lparr>files := [doc_md], error := Some msg_no_model\<rparr>, [])"
proof -
  have a: "localStorage (sample_env [] sample_server) ''selectedModelId'' = None"
    by (simp add: sample_env_def)
  from no_model_selected [OF a, of sample_props "initial\<lparr>files := [doc_md]\<rparr>"] a
  show ?thesis
    by (simp add: initial_def)
qed

text \<open>
  Claim C5, as amended. When local storage holds a non-empty \<open>selectedModelId\<close> and a
  non-empty \<open>selectedModelInfo\<close> that \<open>JSON.parse\<close> rejects, \<open>handleStartUpload\<close> ends with the
  parse error, without any event (so before any POST), with \<open>uploading\<close> false and every
  other field as it was.
\<close>

theorem malformed_model_info:
  assumes "localStorage e ''selectedModelId'' = Some modelId" and "modelId \<noteq> []"
    and "localStorage e ''selectedModelInfo'' = Some modelInfoStr" and "modelInfoStr \<noteq> []"
    and "JSON_parse e modelInfoStr = SyntaxError"
  shows "handleStartUpload p e s
         = (s\<lparr>uploading := False, error := Some msg_parse_model_info\<rparr>, [])"
  using assms
  by (simp add: handleStartUpload_def read_message_def startUpload_try_def truthy_def
      or_else_def
      parseModelInfo_def msg_parse_model_info_nonempty)

theorem malformed_model_info_witness:
  "localStorage (sample_env [(''selectedModelId'', ''m1''), (''selectedModelInfo'', ''{oops'')]
       sample_server) ''selectedModelId'' = Some ''m1''
   \<and> localStorage (sample_env [(''selectedModelId'', ''m1''), (''selectedModelInfo'', ''{oops'')]
       sample_server) ''selectedModelInfo'' = Some ''{oops''
   \<and> JSON_parse (sample_env [(''selectedModelId'', ''m1''), (''selectedModelInfo'', ''{oops'')]
       sample_server) ''{oops'' = SyntaxError
   \<and> handleStartUpload sample_props
       (sample_env [(''selectedModelId'', ''m1''), (''selectedModelInfo'', ''{oops'')] sample_server)
       (initial\<lparr>files := [doc_md]\<rparr>)
       = (initial\<lparr>files := [doc_md], error := Some msg_parse_model_info\<rparr>, [])"
proof -
  let ?e = "sample_env [(''selectedModelId'', ''m1''), (''selectedModelInfo'', ''{oops'')]
              sample_server"
  have a: "localStorage ?e ''selectedModelId'' = Some ''m1''"
    by (simp add: sample_env_def)
  have b: "''m1'' \<noteq> []"
    by simp
  have c: "localStorage ?e ''selectedModelInfo'' = Some ''{oops''"
    by (simp add: sample_env_def)
  have d: "''{oops'' \<noteq> []"
    by simp
  have f: "JSON_parse ?e ''{oops'' = SyntaxError"
    by (simp add: sample_env_def sample_JSON_parse_def)
  from malformed_model_info [OF a b c d f, of sample_props "initial\<lparr>files := [doc_md]\<rparr>"] a c f
  show ?thesis
    by (simp add: initial_def)
qed

text \<open>
  Claim C5 as stated fails for empty strings, which local storage can hold. An empty
  \<open>selectedModelInfo\<close> is a stored value that is not valid JSON, but the guard of line 112
  skips the parse: the upload goes ahead with \<open>null\<close> as model information, the POST is sent
  and no error is reported. And with an empty \<open>selectedModelId\<close> the run ends at line 106 with
  the no-model error, not with the parse error.
\<close>

theorem malformed_model_info_counterexample:
  "localStorage (sample_env [(''selectedModelId'', ''m1''), (''selectedModelInfo'', '''')]
       sample_server) ''selectedModelId'' = Some ''m1''
   \<and> localStorage (sample_env [(''selectedModelId'', ''m1''), (''selectedModelInfo'', '''')]
       sample_server) ''selectedModelInfo'' = Some ''''
   \<and> JSON_parse (sample_env [(''selectedModelId'', ''m1''), (''selectedModelInfo'', '''')]
       sample_server) '''' = SyntaxError
   \<and> snd (handleStartUpload sample_props
       (sample_env [(''selectedModelId'', ''m1''), (''selectedModelInfo'', '''')] sample_server)
       (initial\<lparr>files := [doc_md]\<rparr>))
       = [Fetch (POST ''/api/projects/p1/files'' doc_md), Fetch (GET ''/api/projects/p1/files''),
          UploadSuccess [Some ''doc.md''] None]
   \<and> error (fst (handleStartUpload sample_props
       (sample_env [(''selectedModelId'', ''m1''), (''selectedModelInfo'', '''')] sample_server)
       (initial\<lparr>files := [doc_md]\<rparr>))) = None
   \<and> localStorage (sample_env [(''selectedModelId'', ''''), (''selectedModelInfo'', ''{oops'')]
       sample_server) ''selectedModelId'' = Some ''''
   \<and> error (fst (handleStartUpload sample_props
       (sample_env [(''selectedModelId'', ''''), (''selectedModelInfo'', ''{oops'')] sample_server)
       (initial\<lparr>files := [doc_md]\<rparr>))) = Some msg_no_model
   \<and> msg_no_model \<noteq> msg_parse_model_info"
proof -
  let ?e = "sample_env [(''selectedModelId'', ''m1''), (''selectedModelInfo'', '''')] sample_server"
  let ?e' = "sample_env [(''selectedModelId'', ''''), (''selectedModelInfo'', ''{oops'')]
               sample_server"
  let ?s = "initial\<lparr>files := [doc_md]\<rparr> :: string panel"
  have a: "localStorage ?e ''selectedModelId'' = Some ''m1''"
    "localStorage ?e ''selectedModelInfo'' = Some ''''"
    "JSON_parse ?e '''' = SyntaxError"
    "localStorage ?e' ''selectedModelId'' = Some ''''"
    by (simp_all add: sample_env_def sample_JSON_parse_def)
  have b: "snd (handleStartUpload sample_props ?e ?s)
       = [Fetch (POST ''/api/projects/p1/files'' doc_md), Fetch (GET ''/api/projects/p1/files''),
          UploadSuccess [Some ''doc.md''] None]"
    "error (fst (handleStartUpload sample_props ?e ?s)) = None"
    by (simp_all add: sample_env_def sample_server_def sample_props_def handleStartUpload_def
        read_message_def
        startUpload_try_def parseModelInfo_def truthy_def files_url_def fetchUploadedFiles_def
        Let_def initial_def doc_md_def)
  have c: "error (fst (handleStartUpload sample_props ?e' ?s)) = Some msg_no_model"
    by (simp add: sample_env_def handleStartUpload_def read_message_def startUpload_try_def
        truthy_def
        or_else_def msg_no_model_nonempty)
  have d: "msg_no_model \<noteq> msg_parse_model_info"
    by (simp add: msg_no_model_def msg_parse_model_info_def)
  from a b c d show ?thesis
    by (intro conjI)
qed





text \<open>Any refresh sends one GET, logs at most one error, and touches only \<open>uploadedFiles\<close>,
  \<open>loading\<close> and \<open>error\<close>. It throws exactly when the answer gives \<open>null\<close> or \<open>undefined\<close> as
  a thrown value: that value is logged, and reading its message throws the \<open>TypeError\<close>.\<close>

lemma fetchUploadedFiles_events:
  "\<exists>r s' logged.
      fetchUploadedFiles p e (s, tr) = (r, s', tr @ Fetch (GET (files_url p)) # logged)
      \<and> files s' = files s \<and> uploading s' = uploading s \<and> success s' = success s
      \<and> successMessage s' = successMessage s
      \<and> (if nullish_failure (fetch e tr (GET (files_url p)))
          then r = Inl (Thrown (Some (typeError_message e)))
               \<and> logged = [ConsoleError log_fetch_list_error Nullish]
          else r = Inr ()
               \<and> (logged = [] \<or> (\<exists>v. v \<noteq> Nullish \<and> logged = [ConsoleError log_fetch_list_error v])))"
proof (cases "fetch e tr (GET (files_url p))")
  case (Rejected v)
  then show ?thesis
    by (cases v)
       (simp_all add: fetchUploadedFiles_def Let_def nullish_failure_def read_message_def)
next
  case (Response ok b)
  show ?thesis
  proof (cases b)
    case (Unreadable v)
    with Response show ?thesis
      by (cases v)
         (simp_all add: fetchUploadedFiles_def Let_def nullish_failure_def read_message_def
            thrown_error_def)
  next
    case (Body er fn fl)
    with Response show ?thesis
      by (simp add: fetchUploadedFiles_def Let_def nullish_failure_def read_message_def
          thrown_error_def)
  qed
qed








subsection \<open>Deleting\<close>

text \<open>
  Claim C9. When no deletion target is staged (\<open>fileToDelete\<close> is \<open>null\<close>), confirming the
  delete changes no field of the state and produces no event, so no DELETE request.
\<close>

theorem delete_without_target:
  assumes "fileToDelete s = None"
  shows "handleDeleteFile p e s = (s, [])"
  using assms by (simp add: handleDeleteFile_def truthy_def)

theorem delete_without_target_witness:
  "fileToDelete (initial\<lparr>uploadedFiles := [''doc.md'']\<rparr>) = None
   \<and> handleDeleteFile sample_props (sample_env [] sample_server)
       (initial\<lparr>uploadedFiles := [''doc.md'']\<rparr>)
     = (initial\<lparr>uploadedFiles := [''doc.md'']\<rparr>, [])"
proof -
  have a: "fileToDelete (initial\<lparr>uploadedFiles := [''doc.md'']\<rparr>) = None"
    by (simp add: initial_def)
  from delete_without_target [OF a] a show ?thesis
    by (intro conjI)
qed

text \<open>\<open>handleDeleteFile\<close> past its guard.\<close>

lemma handleDeleteFile_attempt:
  assumes "fileToDelete s = Some t" and "t \<noteq> []"
  shows "handleDeleteFile p e s =
          (case deleteFile_try p e t s of
             (Inr u, s1, tr) \<Rightarrow> (s1\<lparr>loading := False, fileToDelete := None\<rparr>, tr)
           | (Inl v, s1, tr) \<Rightarrow>
               (case read_message e v of
                  Inr m \<Rightarrow> (s1\<lparr>error := m, loading := False, fileToDelete := None\<rparr>,
                            tr @ delete_caught e v)
                | Inl t' \<Rightarrow> (s1\<lparr>loading := False, fileToDelete := None\<rparr>,
                             tr @ delete_caught e v)))"
  using assms
  by (simp add: handleDeleteFile_def truthy_def delete_caught_def Let_def
      split: prod.splits sum.splits)

text \<open>A run of \<open>handleDeleteFile\<close> produces an event exactly when it gets past its guard.\<close>

lemma handleDeleteFile_guard:
  "snd (handleDeleteFile p e s) \<noteq> [] \<longleftrightarrow> truthy (fileToDelete s)"
proof (cases "truthy (fileToDelete s)")
  case False
  then show ?thesis
    by (simp add: handleDeleteFile_def)
next
  case True
  then obtain t where t: "fileToDelete s = Some t" "t \<noteq> []"
    by (auto simp: truthy_def split: option.splits)
  obtain r s1 tr where d: "deleteFile_try p e t s = (r, s1, tr)"
    by (cases "deleteFile_try p e t s")
  have "r = Inr () \<longrightarrow> tr \<noteq> []"
    using d
    by (auto simp: deleteFile_try_def Let_def
        split: option.splits response.splits if_splits prod.splits sum.splits outcome.splits)
  then have "snd (handleDeleteFile p e s) \<noteq> []"
    unfolding handleDeleteFile_attempt [OF t] d
    by (cases r) (auto simp: delete_caught_def split: sum.splits)
  with True show ?thesis
    by simp
qed

text \<open>
  Claim C10. A delete attempt is a run of \<open>handleDeleteFile\<close> that gets past the guard of line
  171, which is the case exactly when it produces an event. After every attempt, whatever
  the server answers and whatever is thrown on the way, \<open>fileToDelete\<close> is \<open>null\<close> and
  \<open>loading\<close> is false; confirming again, with any props and any server, then does nothing.
\<close>

theorem delete_attempt_cleanup:
  assumes "snd (handleDeleteFile p e s) \<noteq> []"
  shows "fileToDelete (fst (handleDeleteFile p e s)) = None
       \<and> loading (fst (handleDeleteFile p e s)) = False
       \<and> handleDeleteFile p' e' (fst (handleDeleteFile p e s)) = (fst (handleDeleteFile p e s), [])"
proof -
  from assms have "truthy (fileToDelete s)"
    by (simp add: handleDeleteFile_guard)
  then obtain t where t: "fileToDelete s = Some t" "t \<noteq> []"
    by (auto simp: truthy_def split: option.splits)
  have a: "fileToDelete (fst (handleDeleteFile p e s)) = None"
    unfolding handleDeleteFile_attempt [OF t]
    by (simp split: prod.splits sum.splits)
  have b: "loading (fst (handleDeleteFile p e s)) = False"
    unfolding handleDeleteFile_attempt [OF t]
    by (simp split: prod.splits sum.splits)
  from a have "handleDeleteFile p' e' (fst (handleDeleteFile p e s))
      = (fst (handleDeleteFile p e s), [])"
    by (simp add: handleDeleteFile_def truthy_def)
  with a b show ?thesis by simp
qed

theorem delete_attempt_cleanup_witness:
  "snd (handleDeleteFile sample_props (sample_env [] locked_server)
       (openDeleteConfirm ''doc.md'' (initial\<lparr>uploadedFiles := [''doc.md'']\<rparr>)))
     = [Fetch (DELETE ''/api/projects/p1/files?fileName=doc.md''),
        ConsoleError log_delete_error (Thrown (Some ''file is locked''))]
   \<and> fileToDelete (fst (handleDeleteFile sample_props (sample_env [] locked_server)
       (openDeleteConfirm ''doc.md'' (initial\<lparr>uploadedFiles := [''doc.md'']\<rparr>)))) = None
   \<and> loading (fst (handleDeleteFile sample_props (sample_env [] locked_server)
       (openDeleteConfirm ''doc.md'' (initial\<lparr>uploadedFiles := [''doc.md'']\<rparr>)))) = False
   \<and> handleDeleteFile sample_props (sample_env [] sample_server)
       (fst (handleDeleteFile sample_props (sample_env [] locked_server)
         (openDeleteConfirm ''doc.md'' (initial\<lparr>uploadedFiles := [''doc.md'']\<rparr>))))
     = (fst (handleDeleteFile sample_props (sample_env [] locked_server)
         (openDeleteConfirm ''doc.md'' (initial\<lparr>uploadedFiles := [''doc.md'']\<rparr>))), [])"
proof -
  let ?e = "sample_env [] locked_server"
  let ?s = "openDeleteConfirm ''doc.md'' (initial\<lparr>uploadedFiles := [''doc.md'']\<rparr>)"
  have enc: "encodeURIComponent ''doc.md'' = Some ''doc.md''"
    by (simp add: encodeURIComponent_def unreserved_def)
  have tr: "snd (handleDeleteFile sample_props ?e ?s)
     = [Fetch (DELETE ''/api/projects/p1/files?fileName=doc.md''),
        ConsoleError log_delete_error (Thrown (Some ''file is locked''))]"
    by (simp add: handleDeleteFile_def deleteFile_try_def openDeleteConfirm_def truthy_def
        enc files_url_def sample_props_def sample_env_def locked_server_def thrown_error_def
        or_else_def read_message_def)
  then have a: "snd (handleDeleteFile sample_props ?e ?s) \<noteq> []"
    by simp
  from delete_attempt_cleanup [OF a, of sample_props "sample_env [] sample_server"] tr
  show ?thesis
    by (intro conjI) simp_all
qed

text \<open>\<open>encodeURIComponent\<close> throws exactly on the strings with an unpaired surrogate.\<close>

lemma encodeURIComponent_throws: "encodeURIComponent t = None \<longleftrightarrow> unpaired_surrogate t"
  by (simp add: encodeURIComponent_def)

text \<open>The events of a run of \<open>handleDeleteFile\<close> past its guard, for a name that
  \<open>encodeURIComponent\<close> accepts: the DELETE; then, unless the DELETE is answered 2xx, what
  the \<open>catch\<close> block does; otherwise the GET of the refresh and, unless the refresh throws,
  its possible logged error, the call of \<open>onFileDeleted\<close> when it is supplied, and the
  reload unless that call threw.\<close>

lemma handleDeleteFile_events:
  assumes "fileToDelete s = Some t" and "t \<noteq> []"
    and "encodeURIComponent t = Some encoded"
    and "d = DELETE (files_url p @ ''?fileName='' @ encoded)"
  shows "\<exists>logged. (logged = [] \<or> (\<exists>v. logged = [ConsoleError log_fetch_list_error v]))
      \<and> snd (handleDeleteFile p e s) =
          Fetch d #
          (case fetch e [] d of
             Rejected v \<Rightarrow> delete_caught e v
           | Response ok b \<Rightarrow>
               if \<not> ok then delete_caught e (thrown_error b msg_delete_failed)
               else Fetch (GET (files_url p))
                    # (if nullish_failure (fetch e [Fetch d] (GET (files_url p)))
                       then ConsoleError log_fetch_list_error Nullish
                            # delete_caught e (Thrown (Some (typeError_message e)))
                       else logged
                            @ (case onFileDeleted p of
                                 None \<Rightarrow> [Reload]
                               | Some callback \<Rightarrow>
                                   FileDeleted t
                                   # (case callback t of
                                        Returns \<Rightarrow> [Reload]
                                      | Throws v \<Rightarrow> delete_caught e v))))"
proof (cases "fetch e [] d")
  case (Rejected v)
  then show ?thesis
    unfolding handleDeleteFile_attempt [OF assms(1,2)]
    by (intro exI [of _ "[]"])
       (simp add: deleteFile_try_def assms(3,4) Let_def split: sum.splits)
next
  case (Response ok b)
  show ?thesis
  proof (cases ok)
    case False
    with Response show ?thesis
      unfolding handleDeleteFile_attempt [OF assms(1,2)]
      by (intro exI [of _ "[]"])
         (simp add: deleteFile_try_def assms(3,4) Let_def split: sum.splits)
  next
    case True
    obtain r s2 logged where
      f: "fetchUploadedFiles p e (closeDeleteConfirm (s\<lparr>loading := True\<rparr>), [Fetch d])
            = (r, s2, [Fetch d] @ Fetch (GET (files_url p)) # logged)"
      and c: "if nullish_failure (fetch e [Fetch d] (GET (files_url p)))
          then r = Inl (Thrown (Some (typeError_message e)))
               \<and> logged = [ConsoleError log_fetch_list_error Nullish]
          else r = Inr ()
               \<and> (logged = [] \<or> (\<exists>v. v \<noteq> Nullish \<and> logged = [ConsoleError log_fetch_list_error v]))"
      using fetchUploadedFiles_events [of p e "closeDeleteConfirm (s\<lparr>loading := True\<rparr>)" "[Fetch d]"]
      by blast
    have body: "deleteFile_try p e t s =
        (case r of
           Inl t' \<Rightarrow> (Inl t', s2, Fetch d # Fetch (GET (files_url p)) # logged)
         | Inr u \<Rightarrow>
             (case onFileDeleted p of
                None \<Rightarrow>
                  (Inr (), s2\<lparr>successMessage := msg_deleted_prefix @ t, success := True\<rparr>,
                   Fetch d # Fetch (GET (files_url p)) # logged @ [Reload])
              | Some callback \<Rightarrow>
                  (case callback t of
                     Returns \<Rightarrow>
                       (Inr (), s2\<lparr>successMessage := msg_deleted_prefix @ t, success := True\<rparr>,
                        Fetch d # Fetch (GET (files_url p)) # logged @ [FileDeleted t, Reload])
                   | Throws v \<Rightarrow>
                       (Inl v, s2, Fetch d # Fetch (GET (files_url p)) # logged @ [FileDeleted t]))))"
      using Response True f
      by (simp add: deleteFile_try_def assms(3,4) Let_def
          split: sum.splits option.splits outcome.splits)
    show ?thesis
    proof (cases "nullish_failure (fetch e [Fetch d] (GET (files_url p)))")
      case nullish: True
      with c have "r = Inl (Thrown (Some (typeError_message e)))"
        and "logged = [ConsoleError log_fetch_list_error Nullish]"
        by simp_all
      with nullish Response True show ?thesis
        unfolding handleDeleteFile_attempt [OF assms(1,2)] body
        by (intro exI [of _ "[]"]) (simp add: read_message_def)
    next
      case other: False
      with c have r: "r = Inr ()"
        and l: "logged = [] \<or> (\<exists>v. logged = [ConsoleError log_fetch_list_error v])"
        by auto
      have "snd (handleDeleteFile p e s) =
          Fetch d # Fetch (GET (files_url p)) # logged
            @ (case onFileDeleted p of
                 None \<Rightarrow> [Reload]
               | Some callback \<Rightarrow>
                   FileDeleted t
                   # (case callback t of
                        Returns \<Rightarrow> [Reload]
                      | Throws v \<Rightarrow> delete_caught e v))"
      proof (cases "onFileDeleted p")
        case None
        with r show ?thesis
          unfolding handleDeleteFile_attempt [OF assms(1,2)] body
          by simp
      next
        case (Some callback)
        with r show ?thesis
          unfolding handleDeleteFile_attempt [OF assms(1,2)] body
          by (cases "callback t") (simp_all split: sum.splits)
      qed
      with l other Response True show ?thesis
        by (intro exI [of _ logged]) simp
    qed
  qed
qed

text \<open>
  Claim C6, as amended. Let a non-empty name \<open>t\<close> without unpaired surrogate be staged for
  deletion, so that \<open>encodeURIComponent\<close> gives its encoding. Confirming the delete first
  sends DELETE to \<open>/api/projects/{projectId}/files?fileName=\<close> followed by the encoded name,
  and sends no other DELETE. When that request is answered 2xx and the GET of the refresh
  that follows does not give \<open>null\<close> or \<open>undefined\<close> as a thrown value, then: when
  \<open>onFileDeleted\<close> is supplied, it is called exactly once, with \<open>t\<close>, and no reload comes
  before the call (the reload follows the call when the callback returns, and does not
  happen when the callback throws); when \<open>onFileDeleted\<close> is not supplied, no callback is
  called and the run ends with the reload. When the GET of the refresh gives \<open>null\<close> or
  \<open>undefined\<close> as a thrown value, neither the callback nor the reload happens.
\<close>

theorem confirm_delete_notifies:
  assumes "fileToDelete s = Some t" and "t \<noteq> []"
    and "encodeURIComponent t = Some encoded"
    and "url = ''/api/projects/'' @ projectId p @ ''/files?fileName='' @ encoded"
    and "tr = snd (handleDeleteFile p e s)"
    and "refresh = fetch e [Fetch (DELETE url)] (GET (files_url p))"
  shows "(\<exists>rest. tr = Fetch (DELETE url) # rest \<and> (\<forall>u. Fetch (DELETE u) \<notin> set rest))
       \<and> (\<forall>b. fetch e [] (DELETE url) = Response True b \<longrightarrow>
            (if nullish_failure refresh then callbacks tr = [] \<and> Reload \<notin> set tr
             else case onFileDeleted p of
                    None \<Rightarrow> callbacks tr = [] \<and> last tr = Reload
                  | Some callback \<Rightarrow>
                      callbacks tr = [FileDeleted t]
                      \<and> (\<exists>before. Reload \<notin> set before \<and> callbacks before = []
                           \<and> tr = before @ FileDeleted t
                                    # (case callback t of
                                         Returns \<Rightarrow> [Reload]
                                       | Throws v \<Rightarrow> delete_caught e v))))"
proof -
  have d: "DELETE url = DELETE (files_url p @ ''?fileName='' @ encoded)"
    by (simp add: assms(4) files_url_def)
  from handleDeleteFile_events [OF assms(1,2,3) d, of e] obtain logged where
    x: "logged = [] \<or> (\<exists>v. logged = [ConsoleError log_fetch_list_error v])"
    and tr: "tr = Fetch (DELETE url) #
          (case fetch e [] (DELETE url) of
             Rejected v \<Rightarrow> delete_caught e v
           | Response ok b \<Rightarrow>
               if \<not> ok then delete_caught e (thrown_error b msg_delete_failed)
               else Fetch (GET (files_url p))
                    # (if nullish_failure refresh
                       then ConsoleError log_fetch_list_error Nullish
                            # delete_caught e (Thrown (Some (typeError_message e)))
                       else logged
                            @ (case onFileDeleted p of
                                 None \<Rightarrow> [Reload]
                               | Some callback \<Rightarrow>
                                   FileDeleted t
                                   # (case callback t of
                                        Returns \<Rightarrow> [Reload]
                                      | Throws v \<Rightarrow> delete_caught e v))))"
    unfolding assms(5,6) by blast
  have caught_quiet: "callbacks (delete_caught e v) = []" "Reload \<notin> set (delete_caught e v)"
    "\<forall>u. Fetch (DELETE u) \<notin> set (delete_caught e v)" for v
    by (simp_all add: delete_caught_def callbacks_def split: sum.splits)
  have first: "\<exists>rest. tr = Fetch (DELETE url) # rest \<and> (\<forall>u. Fetch (DELETE u) \<notin> set rest)"
    unfolding tr using x caught_quiet(3)
    by (auto split: response.splits option.splits outcome.splits)
  have notified: "if nullish_failure refresh then callbacks tr = [] \<and> Reload \<notin> set tr
             else case onFileDeleted p of
                    None \<Rightarrow> callbacks tr = [] \<and> last tr = Reload
                  | Some callback \<Rightarrow>
                      callbacks tr = [FileDeleted t]
                      \<and> (\<exists>before. Reload \<notin> set before \<and> callbacks before = []
                           \<and> tr = before @ FileDeleted t
                                    # (case callback t of
                                         Returns \<Rightarrow> [Reload]
                                       | Throws v \<Rightarrow> delete_caught e v))"
    if ok: "fetch e [] (DELETE url) = Response True b" for b
  proof (cases "nullish_failure refresh")
    case True
    with tr ok have "tr = [Fetch (DELETE url), Fetch (GET (files_url p)),
        ConsoleError log_fetch_list_error Nullish]
        @ delete_caught e (Thrown (Some (typeError_message e)))"
      by simp
    with True caught_quiet(1,2) show ?thesis
      by (simp add: callbacks_def)
  next
    case False
    show ?thesis
    proof (cases "onFileDeleted p")
      case None
      with tr ok x False show ?thesis
        by (auto simp: callbacks_def)
    next
      case (Some callback)
      let ?before = "Fetch (DELETE url) # Fetch (GET (files_url p)) # logged"
      let ?after = "case callback t of Returns \<Rightarrow> [Reload] | Throws v \<Rightarrow> delete_caught e v"
      have 1: "tr = ?before @ FileDeleted t # ?after"
        using tr ok Some False by simp
      have 2: "Reload \<notin> set ?before" "callbacks ?before = []"
        using x by (auto simp: callbacks_def)
      have "callbacks ?after = []"
        using caught_quiet(1) by (cases "callback t") (simp_all add: callbacks_def)
      with 2 have 3: "callbacks tr = [FileDeleted t]"
        unfolding 1 by (simp add: callbacks_def)
      from 1 2 3 have "callbacks tr = [FileDeleted t]
          \<and> (\<exists>before. Reload \<notin> set before \<and> callbacks before = []
               \<and> tr = before @ FileDeleted t # ?after)"
        by blast
      with Some False show ?thesis
        by simp
    qed
  qed
  from first notified show ?thesis
    by blast
qed

theorem confirm_delete_notifies_witness:
  "fileToDelete (openDeleteConfirm ''my notes.md'' (initial\<lparr>uploadedFiles := [''my notes.md'']\<rparr>))
     = Some ''my notes.md''
   \<and> encodeURIComponent ''my notes.md'' = Some ''my%20notes.md''
   \<and> fetch (sample_env [] sample_server) []
       (DELETE ''/api/projects/p1/files?fileName=my%20notes.md'')
     = Response True (Body None None None)
   \<and> \<not> nullish_failure (fetch (sample_env [] sample_server)
       [Fetch (DELETE ''/api/projects/p1/files?fileName=my%20notes.md'')]
       (GET (files_url sample_props)))
   \<and> snd (handleDeleteFile sample_props (sample_env [] sample_server)
       (openDeleteConfirm ''my notes.md'' (initial\<lparr>uploadedFiles := [''my notes.md'']\<rparr>)))
     = [Fetch (DELETE ''/api/projects/p1/files?fileName=my%20notes.md''),
        Fetch (GET ''/api/projects/p1/files''), FileDeleted ''my notes.md'', Reload]
   \<and> callbacks (snd (handleDeleteFile sample_props (sample_env [] sample_server)
       (openDeleteConfirm ''my notes.md'' (initial\<lparr>uploadedFiles := [''my notes.md'']\<rparr>))))
     = [FileDeleted ''my notes.md'']"
proof -
  let ?e = "sample_env [] sample_server"
  let ?s = "openDeleteConfirm ''my notes.md'' (initial\<lparr>uploadedFiles := [''my notes.md'']\<rparr>)"
  let ?url = "''/api/projects/p1/files?fileName=my%20notes.md''"
  have enc: "encodeURIComponent ''my notes.md'' = Some ''my%20notes.md''"
    by (simp add: encodeURIComponent_def unreserved_def percent_def hex_digit_def)
  have a: "fileToDelete ?s = Some ''my notes.md''"
    by (simp add: openDeleteConfirm_def)
  have b: "''my notes.md'' \<noteq> []"
    by simp
  have u: "?url = ''/api/projects/'' @ projectId sample_props @ ''/files?fileName=''
                   @ ''my%20notes.md''"
    by (simp add: sample_props_def)
  have ok: "fetch ?e [] (DELETE ?url) = Response True (Body None None None)"
    by (simp add: sample_env_def sample_server_def)
  have q: "nullish_failure (fetch ?e [Fetch (DELETE ?url)] (GET (files_url sample_props)))
           = False"
    by (simp add: sample_env_def sample_server_def nullish_failure_def)
  have cb: "onFileDeleted sample_props = Some (\<lambda>fileName. Returns)"
    by (simp add: sample_props_def)
  have tr: "snd (handleDeleteFile sample_props ?e ?s)
     = [Fetch (DELETE ?url), Fetch (GET ''/api/projects/p1/files''),
        FileDeleted ''my notes.md'', Reload]"
    by (simp add: handleDeleteFile_def deleteFile_try_def openDeleteConfirm_def truthy_def
        enc files_url_def sample_props_def sample_env_def sample_server_def
        fetchUploadedFiles_def Let_def)
  note run = confirm_delete_notifies [OF a b enc u refl refl, of ?e, unfolded q if_False]
  from run ok cb
  have "callbacks (snd (handleDeleteFile sample_props ?e ?s)) = [FileDeleted ''my notes.md'']"
    by simp
  moreover from q
  have "\<not> nullish_failure (fetch ?e [Fetch (DELETE ?url)] (GET (files_url sample_props)))"
    by simp
  ultimately show ?thesis
    using a enc ok tr by (intro conjI)
qed

text \<open>
  Claim C6 as stated fails in four ways. The empty name, staged by \<open>openDeleteConfirm\<close>, does
  not pass the guard of line 171: confirming sends no DELETE and changes nothing. On a name
  with an unpaired surrogate \<open>encodeURIComponent\<close> throws while the URL of line 177 is built:
  the error is logged and no DELETE is sent. A parent that supplies no \<open>onFileDeleted\<close> is
  not called: line 190 goes straight on to the reload. And when the DELETE is answered 2xx
  but the GET of the refresh is rejected with \<open>null\<close> or \<open>undefined\<close>, line 54 throws, the
  \<open>await\<close> of line 187 throws in its turn, and neither the callback nor the reload happens.
\<close>

theorem confirm_delete_counterexample:
  "fileToDelete (openDeleteConfirm '''' (initial\<lparr>uploadedFiles := ['''']\<rparr>)) = Some ''''
   \<and> handleDeleteFile sample_props (sample_env [] sample_server)
       (openDeleteConfirm '''' (initial\<lparr>uploadedFiles := ['''']\<rparr>))
     = (openDeleteConfirm '''' (initial\<lparr>uploadedFiles := ['''']\<rparr>), [])
   \<and> surrogate_md \<noteq> []
   \<and> snd (handleDeleteFile sample_props (sample_env [] sample_server)
       (openDeleteConfirm surrogate_md (initial\<lparr>uploadedFiles := [surrogate_md]\<rparr>)))
     = [ConsoleError log_delete_error (Thrown (Some ''URI malformed''))]
   \<and> snd (handleDeleteFile (sample_props\<lparr>onFileDeleted := None\<rparr>) (sample_env [] sample_server)
       (openDeleteConfirm ''doc.md'' (initial\<lparr>uploadedFiles := [''doc.md'']\<rparr>)))
     = [Fetch (DELETE ''/api/projects/p1/files?fileName=doc.md''),
        Fetch (GET ''/api/projects/p1/files''), Reload]
   \<and> fetch (sample_env [] nullish_list_server) []
       (DELETE ''/api/projects/p1/files?fileName=doc.md'') = Response True (Body None None None)
   \<and> onFileDeleted sample_props \<noteq> None
   \<and> snd (handleDeleteFile sample_props (sample_env [] nullish_list_server)
       (openDeleteConfirm ''doc.md'' (initial\<lparr>uploadedFiles := [''doc.md'']\<rparr>)))
     = [Fetch (DELETE ''/api/projects/p1/files?fileName=doc.md''),
        Fetch (GET ''/api/projects/p1/files''),
        ConsoleError log_fetch_list_error Nullish,
        ConsoleError log_delete_error (Thrown (Some ''null has no properties''))]"
proof -
  have enc: "encodeURIComponent ''doc.md'' = Some ''doc.md''"
    by (simp add: encodeURIComponent_def unreserved_def)
  have sur: "encodeURIComponent surrogate_md = None"
    by (simp add: encodeURIComponent_def surrogate_md_def)
  have 1: "fileToDelete (openDeleteConfirm '''' (initial\<lparr>uploadedFiles := ['''']\<rparr>)) = Some ''''"
    by (simp add: openDeleteConfirm_def)
  have 2: "handleDeleteFile sample_props (sample_env [] sample_server)
       (openDeleteConfirm '''' (initial\<lparr>uploadedFiles := ['''']\<rparr>))
     = (openDeleteConfirm '''' (initial\<lparr>uploadedFiles := ['''']\<rparr>), [])"
    by (simp add: handleDeleteFile_def openDeleteConfirm_def truthy_def)
  have 3: "surrogate_md \<noteq> []"
    by (simp add: surrogate_md_def)
  have 4: "snd (handleDeleteFile sample_props (sample_env [] sample_server)
       (openDeleteConfirm surrogate_md (initial\<lparr>uploadedFiles := [surrogate_md]\<rparr>)))
     = [ConsoleError log_delete_error (Thrown (Some ''URI malformed''))]"
    using 3
    by (simp add: handleDeleteFile_def deleteFile_try_def openDeleteConfirm_def truthy_def
        sur sample_env_def read_message_def)
  have 5: "snd (handleDeleteFile (sample_props\<lparr>onFileDeleted := None\<rparr>) (sample_env [] sample_server)
       (openDeleteConfirm ''doc.md'' (initial\<lparr>uploadedFiles := [''doc.md'']\<rparr>)))
     = [Fetch (DELETE ''/api/projects/p1/files?fileName=doc.md''),
        Fetch (GET ''/api/projects/p1/files''), Reload]"
    by (simp add: handleDeleteFile_def deleteFile_try_def openDeleteConfirm_def truthy_def
        enc files_url_def sample_props_def sample_env_def sample_server_def
        fetchUploadedFiles_def Let_def)
  have 6: "fetch (sample_env [] nullish_list_server) []
       (DELETE ''/api/projects/p1/files?fileName=doc.md'') = Response True (Body None None None)"
    by (simp add: sample_env_def nullish_list_server_def sample_server_def)
  have 7: "onFileDeleted sample_props \<noteq> None"
    by (simp add: sample_props_def)
  have 8: "snd (handleDeleteFile sample_props (sample_env [] nullish_list_server)
       (openDeleteConfirm ''doc.md'' (initial\<lparr>uploadedFiles := [''doc.md'']\<rparr>)))
     = [Fetch (DELETE ''/api/projects/p1/files?fileName=doc.md''),
        Fetch (GET ''/api/projects/p1/files''),
        ConsoleError log_fetch_list_error Nullish,
        ConsoleError log_delete_error (Thrown (Some ''null has no properties''))]"
    by (simp add: handleDeleteFile_def deleteFile_try_def openDeleteConfirm_def truthy_def
        enc files_url_def sample_props_def sample_env_def nullish_list_server_def
        sample_server_def fetchUploadedFiles_def read_message_def Let_def)
  from 1 2 3 4 5 6 7 8 show ?thesis
    by (intro conjI)
qed

end
